theory Spec2Isabelle
  imports Complex_Main "HOL-Library.AList" "HOL-Library.Sublist"
begin

section \<open>Python values, dictionaries and exceptions\<close>

text \<open>
  A Python \<open>float\<close> is a finite number, an infinity or NaN. Every comparison with NaN is
  false, as in IEEE 754.
\<close>

datatype pyfloat = Finite real | PosInf | NegInf | NaN

fun float_ge :: "pyfloat \<Rightarrow> pyfloat \<Rightarrow> bool" where
  "float_ge NaN _ = False"
| "float_ge _ NaN = False"
| "float_ge PosInf _ = True"
| "float_ge _ NegInf = True"
| "float_ge (Finite a) (Finite b) = (b \<le> a)"
| "float_ge (Finite a) PosInf = False"
| "float_ge NegInf _ = False"

text \<open>
  The values that handlers and JSON bodies carry. A \<open>dict\<close> with string keys is an
  association list in insertion order; lookup is \<open>map_of\<close>.
\<close>

datatype pyval =
    PNone
  | PBool bool
  | PInt int
  | PFloat pyfloat
  | PStr string
  | PList "pyval list"
  | PDict "(string \<times> pyval) list"

type_synonym pydict = "(string \<times> pyval) list"

text \<open>
  \<open>d.update(other)\<close>: every item of \<open>other\<close>, in order, replaces the value of a key
  already present (keeping its position) or is appended.
\<close>

definition dict_update :: "(string \<times> 'v) list \<Rightarrow> (string \<times> 'v) list \<Rightarrow> (string \<times> 'v) list" where
  "dict_update d other = fold (\<lambda>(k, v). AList.update k v) other d"

text \<open>
  Exceptions deriving from \<open>Exception\<close>: a class and a message. \<open>ModuleNotFoundError\<close>
  derives from \<open>ImportError\<close>, \<open>JSONDecodeError\<close> from \<open>ValueError\<close>; \<open>OtherError c\<close>
  is any class \<open>c\<close> unrelated to the classes that the source catches by name.
  FastAPI's \<open>HTTPException\<close> carries a status code and a detail.
\<close>

datatype exn_class =
    ValueError | JSONDecodeError | TypeError | KeyError | AttributeError
  | ImportError | ModuleNotFoundError | FileNotFoundError | RuntimeError
  | TimeoutException | ConnectError | OtherError string

datatype exn = Exn exn_class string | HTTPException nat string

fun is_ImportError :: "exn \<Rightarrow> bool" where
  "is_ImportError (Exn ImportError _) = True"
| "is_ImportError (Exn ModuleNotFoundError _) = True"
| "is_ImportError _ = False"

fun is_AttributeError :: "exn \<Rightarrow> bool" where
  "is_AttributeError (Exn AttributeError _) = True"
| "is_AttributeError _ = False"

fun is_FileNotFoundError :: "exn \<Rightarrow> bool" where
  "is_FileNotFoundError (Exn FileNotFoundError _) = True"
| "is_FileNotFoundError _ = False"

fun show_nat :: "nat \<Rightarrow> string" where
  "show_nat n =
     (if n < 10 then [char_of (48 + n)]
      else show_nat (n div 10) @ [char_of (48 + n mod 10)])"

declare show_nat.simps [simp del]

text \<open>
  \<open>str(e)\<close>: the message; for an \<open>HTTPException\<close>, Starlette's
  \<open>f"{status_code}: {detail}"\<close>.
\<close>

fun exn_str :: "exn \<Rightarrow> string" where
  "exn_str (Exn _ m) = m"
| "exn_str (HTTPException s d) = show_nat s @ '': '' @ d"

text \<open>
  \<open>str(v)\<close>: a string is itself; any other value is rendered by Python's \<open>repr\<close>, which
  the functions below take as the parameter \<open>rp\<close>.
\<close>

definition py_str :: "(pyval \<Rightarrow> string) \<Rightarrow> pyval \<Rightarrow> string" where
  "py_str rp v = (case v of PStr s \<Rightarrow> s | _ \<Rightarrow> rp v)"

text \<open>
  A rendering for closed examples. It agrees with \<open>repr\<close> on \<open>None\<close>, booleans, integers,
  and on strings, lists and dictionaries built from them whose strings are printable ASCII
  without quotes or backslashes; floats are not rendered.
\<close>

definition show_int :: "int \<Rightarrow> string" where
  "show_int i = (if i < 0 then ''-'' @ show_nat (nat (- i)) else show_nat (nat i))"

definition quoted :: "string \<Rightarrow> string" where
  "quoted s = [CHR 0x27] @ s @ [CHR 0x27]"

fun join_with :: "string \<Rightarrow> string list \<Rightarrow> string" where
  "join_with sep [] = []"
| "join_with sep [x] = x"
| "join_with sep (x # y # ys) = x @ sep @ join_with sep (y # ys)"

fun repr_plain :: "pyval \<Rightarrow> string" where
  "repr_plain PNone = ''None''"
| "repr_plain (PBool b) = (if b then ''True'' else ''False'')"
| "repr_plain (PInt i) = show_int i"
| "repr_plain (PFloat f) = ''<float>''"
| "repr_plain (PStr s) = quoted s"
| "repr_plain (PList vs) = ''['' @ join_with '', '' (map repr_plain vs) @ '']''"
| "repr_plain (PDict kvs) =
     ''{'' @ join_with '', '' (map (\<lambda>(k, v). quoted k @ '': '' @ repr_plain v) kvs) @ ''}''"

section \<open>core/dispatcher.py\<close>

text \<open>
  An agent object, as far as \<open>Dispatcher.dispatch\<close> looks at it: whether it has a
  \<open>run_async\<close> attribute, a \<open>run\<close> attribute, and whether it is callable. Each method
  gives the outcome of the awaited call \<open>await agent.m(input_text, context or {})\<close>:
  \<open>Inl e\<close> when that raises \<open>e\<close> (also the \<open>TypeError\<close> of awaiting what a method that
  is not a coroutine function returned), \<open>Inr v\<close> when it evaluates to \<open>v\<close>.
  \<open>input_text\<close> is annotated \<open>str\<close>, which Python does not enforce: \<open>dispatch\<close> passes
  on the value it is given, and \<open>run_agent\<close> can give it one that is not a string.
\<close>

record handle =
  run_async :: "(pyval \<Rightarrow> pydict \<Rightarrow> exn + pyval) option"
  run :: "(pyval \<Rightarrow> pydict \<Rightarrow> exn + pyval) option"
  call :: "(pyval \<Rightarrow> exn + pyval) option"

datatype capability = RunAsync | Run | Call

record invocation =
  inv_agent :: string
  inv_cap :: capability
  inv_input :: pyval
  inv_context :: pydict

text \<open>What a call of \<open>dispatch\<close> leaves behind: its result (\<open>Inl\<close> the exception raised
  to the caller), the handler invocations it made, and the lines given to
  \<open>logger.error\<close>.\<close>

record dispatch_outcome =
  result :: "exn + pyval"
  invoked :: "invocation list"
  errlog :: "string list"

text \<open>\<open>context or {}\<close>\<close>

definition context_or_empty :: "pydict option \<Rightarrow> pydict" where
  "context_or_empty c = (case c of None \<Rightarrow> [] | Some d \<Rightarrow> d)"

text \<open>Lines 43-45 and 50-52:
  \<open>if isinstance(result, dict): return result.get('output', result.get('enhanced_output', str(result)))\<close>,
  \<open>return str(result)\<close>.\<close>

definition unwrap_result :: "(pyval \<Rightarrow> string) \<Rightarrow> pyval \<Rightarrow> pyval" where
  "unwrap_result rp r =
     (case r of
        PDict kvs \<Rightarrow>
          (case map_of kvs ''output'' of
             Some v \<Rightarrow> v
           | None \<Rightarrow>
               (case map_of kvs ''enhanced_output'' of
                  Some v \<Rightarrow> v
                | None \<Rightarrow> PStr (py_str rp r)))
      | _ \<Rightarrow> PStr (py_str rp r))"

text \<open>The body of the \<open>try\<close>: the branch taken, as the capability invoked (none when the
  object is not callable either, where the call raises \<open>TypeError\<close>, its message
  abridged here) and the outcome.\<close>

definition invoke_agent ::
  "(pyval \<Rightarrow> string) \<Rightarrow> handle \<Rightarrow> pyval \<Rightarrow> pydict \<Rightarrow> capability option \<times> (exn + pyval)" where
  "invoke_agent rp agent input_text ctx =
     (case run_async agent of
        Some m \<Rightarrow> (Some RunAsync, map_sum id (unwrap_result rp) (m input_text ctx))
      | None \<Rightarrow>
          (case run agent of
             Some m \<Rightarrow> (Some Run, map_sum id (unwrap_result rp) (m input_text ctx))
           | None \<Rightarrow>
               (case call agent of
                  Some f \<Rightarrow> (Some Call, map_sum id (\<lambda>v. PStr (py_str rp v)) (f input_text))
                | None \<Rightarrow> (None, Inl (Exn TypeError ''object is not callable'')))))"

definition dispatch ::
  "(string \<times> handle) list \<Rightarrow> (pyval \<Rightarrow> string) \<Rightarrow> string \<Rightarrow> pyval \<Rightarrow> pydict option
     \<Rightarrow> dispatch_outcome" where
  "dispatch agents rp agent_name input_text context =
     (case map_of agents agent_name of
        None \<Rightarrow>
          \<lparr>result = Inl (Exn ValueError
               (''Agent '' @ quoted agent_name @ '' not found. Available: ''
                  @ rp (PList (map (PStr \<circ> fst) agents)))),
           invoked = [], errlog = []\<rparr>
      | Some agent \<Rightarrow>
          (let ctx = context_or_empty context;
               (cap, r) = invoke_agent rp agent input_text ctx
           in \<lparr>result = r,
               invoked = (case cap of
                            None \<Rightarrow> []
                          | Some c \<Rightarrow> [\<lparr>inv_agent = agent_name, inv_cap = c,
                                         inv_input = input_text, inv_context = ctx\<rparr>]),
               errlog = (case r of
                           Inl e \<Rightarrow> [''Error dispatching to '' @ agent_name @ '': '' @ exn_str e]
                         | Inr _ \<Rightarrow> [])\<rparr>))"

section \<open>core/agent_loader.py\<close>

text \<open>
  The lines that the loader prints, as events. The outcome of reading the manifest
  (\<open>open\<close> and \<open>json.load\<close>): an exception, or the parsed document, a JSON object, given
  by the value of its \<open>agents\<close> key: \<open>None\<close> when the key is absent, otherwise the object
  under it, whose keys are the agent names.
\<close>

datatype load_log =
    LoadedAgent string
  | FailedAgent string exn
  | ManifestNotFound string
  | CreatingPluginsDir
  | LoadedPlugin string
  | FailedPlugin string exn
  | PluginSummary nat nat

datatype manifest_read = ReadRaises exn | ReadOk "pydict option"

text \<open>
  The loop over the manifest's agent names, the same in \<open>_load_core_agents\<close> and in the
  module's \<open>load_agents\<close>. \<open>resolve name\<close> is the outcome of importing
  \<open>agents.<name>_agent\<close>, getting the class named from \<open>name\<close> and instantiating it; the
  package \<open>agents\<close> is not part of the sources. \<open>except (ImportError, AttributeError)\<close>
  skips the entry; any other exception leaves the loop.
\<close>

fun load_loop ::
  "(string \<Rightarrow> exn + handle) \<Rightarrow> string list \<Rightarrow> (string \<times> handle) list \<Rightarrow> load_log list
     \<Rightarrow> (exn + (string \<times> handle) list) \<times> load_log list" where
  "load_loop resolve [] agents lg = (Inr agents, lg)"
| "load_loop resolve (name # names) agents lg =
     (case resolve name of
        Inr inst \<Rightarrow> load_loop resolve names (AList.update name inst agents) (lg @ [LoadedAgent name])
      | Inl e \<Rightarrow>
          (if is_ImportError e \<or> is_AttributeError e
           then load_loop resolve names agents (lg @ [FailedAgent name e])
           else (Inl e, lg)))"

text \<open>The module's \<open>load_agents(manifest_path)\<close>: the outer \<open>try\<close> spans the read,
  \<open>data["agents"]\<close> and the loop, and catches \<open>FileNotFoundError\<close> only.\<close>

definition load_agents ::
  "string \<Rightarrow> manifest_read \<Rightarrow> (string \<Rightarrow> exn + handle)
     \<Rightarrow> (exn + (string \<times> handle) list) \<times> load_log list" where
  "load_agents manifest_path rd resolve =
     (let (r, lg) =
        (case rd of
           ReadRaises e \<Rightarrow> (Inl e, [])
         | ReadOk None \<Rightarrow> (Inl (Exn KeyError (quoted ''agents'')), [])
         | ReadOk (Some entries) \<Rightarrow> load_loop resolve (map fst entries) [] [])
      in (case r of
            Inl e \<Rightarrow>
              (if is_FileNotFoundError e then (Inr [], lg @ [ManifestNotFound manifest_path])
               else (Inl e, lg))
          | Inr agents \<Rightarrow> (Inr agents, lg)))"

text \<open>The plugin registry (\<open>fusion_plugin_registry\<close>, not part of the sources) and the
  plugins directory: whether the directory exists, the outcome of \<open>discover_plugins()\<close>
  (\<open>agents_found\<close>, \<open>tools_found\<close>), the names of \<open>list_agents()\<close>, and for each name the
  outcome of \<open>get_agent(name)()\<close>.\<close>

record plugin_env =
  dir_exists :: bool
  discover_plugins :: "exn + nat \<times> nat"
  list_agents :: "string list"
  instantiate :: "string \<Rightarrow> exn + handle"

fun plugin_loop ::
  "(string \<Rightarrow> exn + handle) \<Rightarrow> string list \<Rightarrow> (string \<times> handle) list \<Rightarrow> load_log list
     \<Rightarrow> (string \<times> handle) list \<times> load_log list" where
  "plugin_loop inst [] agents lg = (agents, lg)"
| "plugin_loop inst (name # names) agents lg =
     (case inst name of
        Inr a \<Rightarrow> plugin_loop inst names (AList.update name a agents) (lg @ [LoadedPlugin name])
      | Inl e \<Rightarrow> plugin_loop inst names agents (lg @ [FailedPlugin name e]))"

text \<open>The module's \<open>load_plugins(plugins_dir)\<close>; it creates a missing directory silently.\<close>

definition load_plugins :: "plugin_env \<Rightarrow> (exn + (string \<times> handle) list) \<times> load_log list" where
  "load_plugins env =
     (if \<not> dir_exists env then (Inr [], [])
      else (case discover_plugins env of
              Inl e \<Rightarrow> (Inl e, [])
            | Inr (agents_found, tools_found) \<Rightarrow>
                (let (plugin_agents, lg) = plugin_loop (instantiate env) (list_agents env) [] []
                 in (Inr plugin_agents,
                     lg @ (if agents_found > 0 then [PluginSummary agents_found tools_found] else [])))))"

definition load_all_agents ::
  "string \<Rightarrow> manifest_read \<Rightarrow> (string \<Rightarrow> exn + handle) \<Rightarrow> plugin_env
     \<Rightarrow> (exn + (string \<times> handle) list) \<times> load_log list" where
  "load_all_agents manifest_path rd resolve env =
     (case load_agents manifest_path rd resolve of
        (Inl e, lg) \<Rightarrow> (Inl e, lg)
      | (Inr agents, lg) \<Rightarrow>
          (case load_plugins env of
             (Inl e, lg') \<Rightarrow> (Inl e, lg @ lg')
           | (Inr plugin_agents, lg') \<Rightarrow> (Inr (dict_update agents plugin_agents), lg @ lg')))"

text \<open>The class \<open>AgentLoader\<close>: its two mutable attributes, and its methods, which return
  the updated object next to their result. \<open>manifest_data\<close> is kept as the parsed
  document is above, by the value of its \<open>agents\<close> key.\<close>

record AgentLoader =
  loaded_agents :: "(string \<times> handle) list"
  manifest_data :: "pydict option"

text \<open>\<open>_load_core_agents\<close>: the \<open>try\<close> spans the read only; a document without \<open>agents\<close>
  has no entries (\<open>.get("agents", {})\<close>).\<close>

definition load_core_agents ::
  "AgentLoader \<Rightarrow> string \<Rightarrow> manifest_read \<Rightarrow> (string \<Rightarrow> exn + handle)
     \<Rightarrow> (exn + (string \<times> handle) list) \<times> load_log list \<times> AgentLoader" where
  "load_core_agents self manifest_path rd resolve =
     (case rd of
        ReadRaises e \<Rightarrow>
          (if is_FileNotFoundError e then (Inr [], [ManifestNotFound manifest_path], self)
           else (Inl e, [], self))
      | ReadOk doc \<Rightarrow>
          (let self' = self\<lparr>manifest_data := doc\<rparr>;
               manifest_agents = (case doc of None \<Rightarrow> [] | Some entries \<Rightarrow> entries);
               (r, lg) = load_loop resolve (map fst manifest_agents) [] []
           in (r, lg, self')))"

definition load_plugin_agents :: "plugin_env \<Rightarrow> (exn + (string \<times> handle) list) \<times> load_log list" where
  "load_plugin_agents env =
     (if \<not> dir_exists env then (Inr [], [CreatingPluginsDir])
      else (case discover_plugins env of
              Inl e \<Rightarrow> (Inl e, [])
            | Inr (agents_found, tools_found) \<Rightarrow>
                (let (agents, lg) = plugin_loop (instantiate env) (list_agents env) [] []
                 in (Inr agents,
                     lg @ (if agents_found > 0 then [PluginSummary agents_found tools_found] else [])))))"

text \<open>\<open>AgentLoader.load_agents\<close>\<close>

definition loader_load_agents ::
  "AgentLoader \<Rightarrow> string \<Rightarrow> manifest_read \<Rightarrow> (string \<Rightarrow> exn + handle) \<Rightarrow> plugin_env
     \<Rightarrow> (exn + (string \<times> handle) list) \<times> load_log list \<times> AgentLoader" where
  "loader_load_agents self manifest_path rd resolve env =
     (case load_core_agents self manifest_path rd resolve of
        (Inl e, lg, self') \<Rightarrow> (Inl e, lg, self')
      | (Inr core_agents, lg, self') \<Rightarrow>
          (let agents = dict_update [] core_agents
           in (case load_plugin_agents env of
                 (Inl e, lg') \<Rightarrow> (Inl e, lg @ lg', self')
               | (Inr plugin_agents, lg') \<Rightarrow>
                   (let agents' = dict_update agents plugin_agents
                    in (Inr agents', lg @ lg', self'\<lparr>loaded_agents := agents'\<rparr>)))))"

text \<open>
  For the statements about loading: an entry is usable when it resolves, skippable when
  its resolution raises \<open>ImportError\<close> or \<open>AttributeError\<close>; a failure line is the one
  printed for a skipped entry.
\<close>

definition usable :: "(string \<Rightarrow> exn + handle) \<Rightarrow> string \<Rightarrow> bool" where
  "usable resolve name = (case resolve name of Inl e \<Rightarrow> False | Inr inst \<Rightarrow> True)"

definition skippable :: "(string \<Rightarrow> exn + handle) \<Rightarrow> string \<Rightarrow> bool" where
  "skippable resolve name =
     (case resolve name of Inl e \<Rightarrow> is_ImportError e \<or> is_AttributeError e | Inr inst \<Rightarrow> False)"

fun is_failure :: "load_log \<Rightarrow> bool" where
  "is_failure (FailedAgent name e) = True"
| "is_failure _ = False"

section \<open>core/orchestrator.py\<close>

text \<open>\<open>str.lower\<close> on ASCII text, and the substring test \<open>word in prompt_lower\<close>.\<close>

definition lower_char :: "char \<Rightarrow> char" where
  "lower_char c =
     (case map_of (zip ''ABCDEFGHIJKLMNOPQRSTUVWXYZ'' ''abcdefghijklmnopqrstuvwxyz'') c of
        None \<Rightarrow> c
      | Some l \<Rightarrow> l)"

definition lower :: "string \<Rightarrow> string" where
  "lower s = map lower_char s"

fun py_in :: "string \<Rightarrow> string \<Rightarrow> bool" where
  "py_in w [] = (w = [])"
| "py_in w (c # cs) = (prefix w (c # cs) \<or> py_in w cs)"

definition any_word_in :: "string list \<Rightarrow> string \<Rightarrow> bool" where
  "any_word_in ws s = list_ex (\<lambda>word. py_in word s) ws"

definition select_agent :: "string \<Rightarrow> string" where
  "select_agent prompt =
     (let prompt_lower = lower prompt in
      if any_word_in [''design'', ''ui'', ''ux'', ''interface'', ''visual''] prompt_lower
        then ''vp_design''
      else if any_word_in [''strategy'', ''roadmap'', ''business'', ''plan''] prompt_lower
        then ''strategy_pilot''
      else if any_word_in [''code'', ''technical'', ''implement'', ''development''] prompt_lower
        then ''design_technologist''
      else if any_word_in [''content'', ''copy'', ''text'', ''narrative''] prompt_lower
        then ''content_designer''
      else if any_word_in [''evaluate'', ''analyze'', ''review'', ''critique''] prompt_lower
        then ''evaluator''
      else ''evaluator'')"

section \<open>prompt_orchestrator.py\<close>

text \<open>
  What \<open>await prompt_master.run_async(req.prompt, {})\<close> gives (\<open>PromptMasterAgent\<close> is not
  part of the sources): a dictionary, read through the keys that \<open>route_agent\<close> looks up,
  each of which may be absent, with the types that \<open>PromptResponse\<close> declares for them.
\<close>

record shared_state =
  ss_suggested_agents :: "string list option"
  ss_pattern_type :: "string option"

record pm_result =
  pm_error :: "string option"
  pm_shared_state :: "shared_state option"
  pm_confidence :: "pyfloat option"

record AgentRouteRequest =
  prompt :: string
  confidence_threshold :: pyfloat

record AgentRouteResponse =
  recommended_agent :: string
  confidence :: pyfloat
  alternatives :: "string list"
  reasoning :: string

definition pattern_defaults :: "(string \<times> string) list" where
  "pattern_defaults =
     [(''design_focused'', ''vp_design''),
      (''strategy_focused'', ''strategy_pilot''),
      (''technical_focused'', ''design_technologist''),
      (''content_focused'', ''content_designer''),
      (''general'', ''evaluator'')]"

text \<open>\<open>d.get(k, default)\<close> on an association list.\<close>

definition get_default :: "('k \<times> 'v) list \<Rightarrow> 'k \<Rightarrow> 'v \<Rightarrow> 'v" where
  "get_default d k dflt = (case map_of d k of None \<Rightarrow> dflt | Some v \<Rightarrow> v)"

text \<open>Lines 137-140: \<open>result.get("shared_state", {})\<close>,
  \<open>shared_state.get("suggested_agents", [])\<close>, \<open>result.get("confidence", 0.0)\<close>,
  \<open>shared_state.get("pattern_type", "general")\<close>.\<close>

definition shared_of :: "pm_result \<Rightarrow> shared_state" where
  "shared_of res =
     (case pm_shared_state res of
        None \<Rightarrow> \<lparr>ss_suggested_agents = None, ss_pattern_type = None\<rparr>
      | Some sh \<Rightarrow> sh)"

definition suggested_of :: "pm_result \<Rightarrow> string list" where
  "suggested_of res = (case ss_suggested_agents (shared_of res) of None \<Rightarrow> [] | Some l \<Rightarrow> l)"

definition confidence_of :: "pm_result \<Rightarrow> pyfloat" where
  "confidence_of res = (case pm_confidence res of None \<Rightarrow> Finite 0 | Some c \<Rightarrow> c)"

definition pattern_of :: "pm_result \<Rightarrow> string" where
  "pattern_of res = (case ss_pattern_type (shared_of res) of None \<Rightarrow> ''general'' | Some t \<Rightarrow> t)"

text \<open>Lines 142-169, for a result without \<open>error\<close>. \<open>fmt2\<close> is the format \<open>{confidence:.2f}\<close>.\<close>

definition route_decision :: "(pyfloat \<Rightarrow> string) \<Rightarrow> AgentRouteRequest \<Rightarrow> pm_result \<Rightarrow> AgentRouteResponse" where
  "route_decision fmt2 req res =
     (let suggested_agents = suggested_of res;
          conf = confidence_of res;
          pattern_type = pattern_of res;
          (recommended, alts) =
            (if suggested_agents \<noteq> [] \<and> float_ge conf (confidence_threshold req)
             then (suggested_agents ! 0, take 2 (drop 1 suggested_agents))
             else (get_default pattern_defaults pattern_type ''evaluator'',
                   [''vp_design'', ''creative_director'']));
          reasoning0 = ''Pattern '' @ quoted pattern_type @ '' detected with '' @ fmt2 conf
                         @ '' confidence. ''
      in \<lparr>recommended_agent = recommended,
          confidence = conf,
          alternatives = alts,
          reasoning = reasoning0 @
            (if float_ge conf (confidence_threshold req)
             then ''High confidence routing to specialized agents.''
             else ''Low confidence, using fallback routing.'')\<rparr>)"

text \<open>\<open>route_agent\<close>: the \<open>try\<close> re-raises every exception, its own \<open>HTTPException\<close> for an
  \<open>error\<close> result too, as an \<open>HTTPException\<close> with status 500.\<close>

definition route_agent ::
  "(pyfloat \<Rightarrow> string) \<Rightarrow> AgentRouteRequest \<Rightarrow> exn + pm_result \<Rightarrow> exn + AgentRouteResponse" where
  "route_agent fmt2 req pm =
     (let body =
        (case pm of
           Inl e \<Rightarrow> Inl e
         | Inr res \<Rightarrow>
             (case pm_error res of
                Some d \<Rightarrow> Inl (HTTPException 500 d)
              | None \<Rightarrow> Inr (route_decision fmt2 req res)))
      in (case body of
            Inl e \<Rightarrow> Inl (HTTPException 500 (''Agent routing failed: '' @ exn_str e))
          | Inr resp \<Rightarrow> Inr resp))"

section \<open>fusion_api.py\<close>

text \<open>
  The outcome of \<open>client.post(url, json=payload)\<close> inside the \<open>httpx.AsyncClient\<close> block:
  an exception (a timeout, a connection error), or a response with its status code and
  the outcome of \<open>response.json()\<close>.
\<close>

datatype http_outcome = HttpRaises exn | HttpResponse nat "exn + pyval"

text \<open>The outcomes that the two callers below answer with their fallback: an exception
  of the request, a status other than 200, or a body that \<open>response.json()\<close> cannot
  decode.\<close>

definition http_failed :: "http_outcome \<Rightarrow> bool" where
  "http_failed out =
     (case out of
        HttpRaises e \<Rightarrow> True
      | HttpResponse status_code js \<Rightarrow> status_code \<noteq> 200 \<or> isl js)"

definition rewrite_fallback :: "string \<Rightarrow> pyval" where
  "rewrite_fallback p =
     PDict [(''original_prompt'', PStr p), (''rewritten_prompt'', PStr p),
            (''confidence'', PFloat (Finite (1/2)))]"

definition route_fallback :: pyval where
  "route_fallback =
     PDict [(''recommended_agent'', PStr ''evaluator''), (''confidence'', PFloat (Finite (1/2)))]"

definition rewrite_payload :: "string \<Rightarrow> pydict option \<Rightarrow> pyval" where
  "rewrite_payload p context =
     PDict [(''prompt'', PStr p), (''context'', PDict (context_or_empty context)),
            (''use_memory'', PBool True), (''use_fallback'', PBool True)]"

definition route_payload :: "string \<Rightarrow> pyval" where
  "route_payload p =
     PDict [(''prompt'', PStr p), (''confidence_threshold'', PFloat (Finite (7/10)))]"

text \<open>Both calls return from inside \<open>try\<close>; \<open>except Exception\<close> returns the fallback.\<close>

definition call_prompt_orchestrator ::
  "(string \<Rightarrow> pyval \<Rightarrow> http_outcome) \<Rightarrow> string \<Rightarrow> pydict option \<Rightarrow> exn + pyval" where
  "call_prompt_orchestrator post p context =
     (let body =
        (case post ''/rewrite'' (rewrite_payload p context) of
           HttpRaises e \<Rightarrow> Inl e
         | HttpResponse status_code js \<Rightarrow>
             (if status_code = 200 then js else Inr (rewrite_fallback p)))
      in (case body of
            Inl e \<Rightarrow> Inr (rewrite_fallback p)
          | Inr v \<Rightarrow> Inr v))"

definition get_agent_recommendation ::
  "(string \<Rightarrow> pyval \<Rightarrow> http_outcome) \<Rightarrow> string \<Rightarrow> exn + pyval" where
  "get_agent_recommendation post p =
     (let body =
        (case post ''/route'' (route_payload p) of
           HttpRaises e \<Rightarrow> Inl e
         | HttpResponse status_code js \<Rightarrow>
             (if status_code = 200 then js else Inr route_fallback))
      in (case body of
            Inl e \<Rightarrow> Inr route_fallback
          | Inr v \<Rightarrow> Inr v))"

text \<open>
  The module's globals and collaborators: \<open>agent_map\<close> (manifest agents updated with the
  plugins), the agents of the global \<open>dispatcher\<close> (\<open>load_agents()\<close> alone), the HTTP
  client, \<open>repr\<close>, and \<open>MultiAgentOrchestrator.run_parallel\<close> (not part of the sources),
  which gives its result and the handler invocations it made. The memory and telemetry
  classes (\<open>fusion_core\<close>, not part of the sources) are given by what their calls raise,
  \<open>None\<close> when a call returns: \<open>AgentMemory(agent)\<close>, \<open>memory.append(input, output)\<close>, and
  \<open>telemetry_logger.log_event(agent, input_text, output_text, fallback)\<close>.
\<close>

record api =
  agent_map :: "(string \<times> handle) list"
  dispatcher_agents :: "(string \<times> handle) list"
  http_post :: "string \<Rightarrow> pyval \<Rightarrow> http_outcome"
  py_repr :: "pyval \<Rightarrow> string"
  run_parallel :: "string \<Rightarrow> string list \<Rightarrow> (exn + pydict) \<times> invocation list"
  new_memory :: "string \<Rightarrow> exn option"
  memory_append :: "string \<Rightarrow> string \<Rightarrow> pyval \<Rightarrow> exn option"
  log_event :: "string \<Rightarrow> string \<Rightarrow> pyval \<Rightarrow> string option \<Rightarrow> exn option"

record RunRequest =
  rr_agent :: string
  rr_input :: string
  rr_use_memory :: bool
  rr_use_telemetry :: bool
  rr_use_prompt_orchestrator :: bool

record PromptRequest =
  pr_input :: string
  agent_preference :: "string option"
  pr_use_memory :: bool
  pr_use_telemetry :: bool
  pr_use_prompt_orchestrator :: bool

record ParallelRunRequest =
  req_agents :: "string list"
  par_input :: string
  use_evaluator :: bool

text \<open>Truth value of a Python value, and \<open>d.get(k)\<close>.\<close>

fun truthy :: "pyval \<Rightarrow> bool" where
  "truthy PNone = False"
| "truthy (PBool b) = b"
| "truthy (PInt i) = (i \<noteq> 0)"
| "truthy (PFloat f) = (f \<noteq> Finite 0)"
| "truthy (PStr s) = (s \<noteq> [])"
| "truthy (PList l) = (l \<noteq> [])"
| "truthy (PDict d) = (d \<noteq> [])"

definition dget :: "pydict \<Rightarrow> string \<Rightarrow> pyval" where
  "dget d k = get_default d k PNone"

text \<open>
  Lines 209-217 of \<open>run_agent\<close>. Reading a result that is not a dictionary raises
  \<open>AttributeError\<close> (its message abridged here): inside the inner \<open>try\<close> at line 179,
  where it is swallowed, and again at line 210, where it reaches the outer \<open>except\<close>.
\<close>

definition orchestrator_metadata :: "pyval option \<Rightarrow> exn + pydict" where
  "orchestrator_metadata orchestrator_result =
     (case orchestrator_result of
        None \<Rightarrow> Inr []
      | Some v \<Rightarrow>
          (if \<not> truthy v then Inr []
           else (case v of
                   PDict d \<Rightarrow>
                     Inr [(''orchestrator_metadata'',
                           PDict [(''original_prompt'', dget d ''original_prompt''),
                                  (''rewritten_prompt'', dget d ''rewritten_prompt''),
                                  (''pattern_type'', dget d ''pattern_type''),
                                  (''confidence'', dget d ''confidence''),
                                  (''suggested_agents'', get_default d ''suggested_agents'' (PList []))])]
                 | _ \<Rightarrow> Inl (Exn AttributeError ''object has no attribute get''))))"

text \<open>Lines 173-183: the orchestrator's result, when it is asked, and the input that the
  agent is given. Any truthy \<open>rewritten_prompt\<close> replaces the input, a string or not.\<close>

definition orchestrator_result_of :: "api \<Rightarrow> RunRequest \<Rightarrow> pyval option" where
  "orchestrator_result_of a req =
     (if rr_use_prompt_orchestrator req
      then (case call_prompt_orchestrator (http_post a) (rr_input req) None of
              Inl e \<Rightarrow> None | Inr v \<Rightarrow> Some v)
      else None)"

definition final_input :: "pyval option \<Rightarrow> string \<Rightarrow> pyval" where
  "final_input orchestrator_result input_text =
     (case orchestrator_result of
        Some (PDict d) \<Rightarrow>
          (if truthy (dget d ''rewritten_prompt'') then dget d ''rewritten_prompt''
           else PStr input_text)
      | _ \<Rightarrow> PStr input_text)"

text \<open>
  \<open>run_agent\<close>. The unknown agent is refused and the memory is constructed before the
  \<open>try\<close>, so what they raise reaches the caller as it is. Inside the \<open>try\<close> come the
  dispatch, \<open>memory.append\<close> (the memory object taken to be truthy), the telemetry event
  and the result; the \<open>except\<close> logs a telemetry event, which may raise in its turn, and
  raises \<open>HTTPException\<close> 500.
\<close>

definition run_agent :: "api \<Rightarrow> RunRequest \<Rightarrow> (exn + pydict) \<times> invocation list" where
  "run_agent a req =
     (case map_of (agent_map a) (rr_agent req) of
        None \<Rightarrow> (Inl (HTTPException 404 (''Agent '' @ quoted (rr_agent req) @ '' not found'')), [])
      | Some agent \<Rightarrow>
          (case (if rr_use_memory req then new_memory a (rr_agent req) else None) of
             Some e \<Rightarrow> (Inl e, [])
           | None \<Rightarrow>
               (let orchestrator_result = orchestrator_result_of a req;
                    out = dispatch (dispatcher_agents a) (py_repr a) (rr_agent req)
                            (final_input orchestrator_result (rr_input req)) None;
                    body =
                      (case result out of
                         Inl e \<Rightarrow> Inl e
                       | Inr output \<Rightarrow>
                           (case (if rr_use_memory req
                                  then memory_append a (rr_agent req) (rr_input req) output
                                  else None) of
                              Some e \<Rightarrow> Inl e
                            | None \<Rightarrow>
                                (case (if rr_use_telemetry req
                                       then log_event a (rr_agent req) (rr_input req) output None
                                       else None) of
                                   Some e \<Rightarrow> Inl e
                                 | None \<Rightarrow>
                                     (case orchestrator_metadata orchestrator_result of
                                        Inl e \<Rightarrow> Inl e
                                      | Inr meta \<Rightarrow>
                                          Inr ([(''agent'', PStr (rr_agent req)),
                                                (''output'', output),
                                                (''success'', PBool True),
                                                (''memory_enabled'', PBool (rr_use_memory req)),
                                                (''telemetry_enabled'', PBool (rr_use_telemetry req)),
                                                (''prompt_orchestrator_used'',
                                                 PBool (rr_use_prompt_orchestrator req))]
                                               @ meta)))))
                in (case body of
                      Inl e \<Rightarrow>
                        (case (if rr_use_telemetry req
                               then log_event a (rr_agent req) (rr_input req)
                                      (PStr (''Error: '' @ exn_str e)) (Some ''error_handling'')
                               else None) of
                           Some e' \<Rightarrow> (Inl e', invoked out)
                         | None \<Rightarrow>
                             (Inl (HTTPException 500 (''Agent execution failed: '' @ exn_str e)),
                              invoked out))
                    | Inr res \<Rightarrow> (Inr res, invoked out)))))"

text \<open>\<open>handle_prompt\<close>, lines 270-284: the agent that the request is run with.\<close>

definition preferred :: "PromptRequest \<Rightarrow> bool" where
  "preferred req = (case agent_preference req of None \<Rightarrow> False | Some p \<Rightarrow> p \<noteq> [])"

definition agent_recommendation_of :: "api \<Rightarrow> PromptRequest \<Rightarrow> pyval option" where
  "agent_recommendation_of a req =
     (if pr_use_prompt_orchestrator req
      then (case get_agent_recommendation (http_post a) (pr_input req) of
              Inl e \<Rightarrow> None | Inr v \<Rightarrow> Some v)
      else None)"

text \<open>The string under \<open>recommended_agent\<close>, when the recommendation is a dictionary that
  has one; with anything else, \<open>.get\<close> or the membership test raises inside the inner
  \<open>try\<close> or the test is false, and the agent stays as it was.\<close>

definition recommended_name :: "pyval option \<Rightarrow> string option" where
  "recommended_name agent_recommendation =
     (case agent_recommendation of
        Some (PDict d) \<Rightarrow>
          (case map_of d ''recommended_agent'' of Some (PStr s) \<Rightarrow> Some s | _ \<Rightarrow> None)
      | _ \<Rightarrow> None)"

definition final_agent :: "api \<Rightarrow> PromptRequest \<Rightarrow> pyval option \<Rightarrow> string" where
  "final_agent a req agent_recommendation =
     (let final0 = (case agent_preference req of
                      None \<Rightarrow> ''evaluator''
                    | Some p \<Rightarrow> (if p \<noteq> [] then p else ''evaluator''))
      in (case recommended_name agent_recommendation of
            Some s \<Rightarrow>
              (if \<not> preferred req \<and> map_of (agent_map a) s \<noteq> None then s else final0)
          | None \<Rightarrow> final0))"

definition auto_selection :: "pyval option \<Rightarrow> exn + pydict" where
  "auto_selection agent_recommendation =
     (case agent_recommendation of
        None \<Rightarrow> Inr []
      | Some v \<Rightarrow>
          (if \<not> truthy v then Inr []
           else (case v of
                   PDict d \<Rightarrow>
                     Inr [(''auto_selection'',
                           PDict [(''recommended_agent'', dget d ''recommended_agent''),
                                  (''confidence'', dget d ''confidence''),
                                  (''alternatives'', get_default d ''alternatives'' (PList [])),
                                  (''reasoning'', dget d ''reasoning'')])]
                 | _ \<Rightarrow> Inl (Exn AttributeError ''object has no attribute get''))))"

definition handle_prompt :: "api \<Rightarrow> PromptRequest \<Rightarrow> (exn + pydict) \<times> invocation list" where
  "handle_prompt a req =
     (let agent_recommendation = agent_recommendation_of a req;
          run_request = \<lparr>rr_agent = final_agent a req agent_recommendation,
                         rr_input = pr_input req,
                         rr_use_memory = pr_use_memory req,
                         rr_use_telemetry = pr_use_telemetry req,
                         rr_use_prompt_orchestrator = pr_use_prompt_orchestrator req\<rparr>;
          (r, ivs) = run_agent a run_request;
          body =
            (case r of
               Inl e \<Rightarrow> Inl e
             | Inr res \<Rightarrow>
                 (case auto_selection agent_recommendation of
                    Inl e \<Rightarrow> Inl e
                  | Inr sel \<Rightarrow> Inr (dict_update res sel)))
      in (case body of
            Inl e \<Rightarrow> (Inl (HTTPException 500 (''Prompt handling failed: '' @ exn_str e)), ivs)
          | Inr res \<Rightarrow> (Inr res, ivs)))"

definition run_parallel_agents :: "api \<Rightarrow> ParallelRunRequest \<Rightarrow> (exn + pydict) \<times> invocation list" where
  "run_parallel_agents a req =
     (let invalid_agents = filter (\<lambda>agent. map_of (agent_map a) agent = None) (req_agents req)
      in if invalid_agents \<noteq> []
         then (Inl (HTTPException 404
                      (''Agents not found: '' @ py_repr a (PList (map PStr invalid_agents)))), [])
         else (case run_parallel a (par_input req) (req_agents req) of
                 (Inl e, ivs) \<Rightarrow>
                   (Inl (HTTPException 500 (''Parallel execution failed: '' @ exn_str e)), ivs)
               | (Inr res, ivs) \<Rightarrow>
                   (Inr [(''input'', PStr (par_input req)),
                         (''agents'', PList (map PStr (req_agents req))),
                         (''top_result'', dget res ''top_result''),
                         (''all_results'', dget res ''all_results''),
                         (''evaluations'', dget res ''evaluations''),
                         (''execution_time'', dget res ''execution_time''),
                         (''agent_count'', dget res ''agent_count'')], ivs)))"

section \<open>Example agents and services\<close>

text \<open>Agents with one capability each, handlers that return a fixed value or raise a
  fixed exception, and a service that cannot be reached; the closed examples below use
  them.\<close>

definition async_only :: "(pyval \<Rightarrow> pydict \<Rightarrow> exn + pyval) \<Rightarrow> handle" where
  "async_only m = \<lparr>run_async = Some m, run = None, call = None\<rparr>"

definition run_only :: "(pyval \<Rightarrow> pydict \<Rightarrow> exn + pyval) \<Rightarrow> handle" where
  "run_only m = \<lparr>run_async = None, run = Some m, call = None\<rparr>"

definition call_only :: "(pyval \<Rightarrow> exn + pyval) \<Rightarrow> handle" where
  "call_only f = \<lparr>run_async = None, run = None, call = Some f\<rparr>"

definition returning :: "pyval \<Rightarrow> pyval \<Rightarrow> pydict \<Rightarrow> exn + pyval" where
  "returning v input_text ctx = Inr v"

definition raising :: "exn \<Rightarrow> pyval \<Rightarrow> pydict \<Rightarrow> exn + pyval" where
  "raising e input_text ctx = Inl e"

definition call_returning :: "pyval \<Rightarrow> pyval \<Rightarrow> exn + pyval" where
  "call_returning v input_text = Inr v"

definition call_raising :: "exn \<Rightarrow> pyval \<Rightarrow> exn + pyval" where
  "call_raising e input_text = Inl e"

definition all_three :: handle where
  "all_three =
     \<lparr>run_async = Some (raising (Exn RuntimeError ''boom'')),
      run = Some (returning (PStr ''from run'')),
      call = Some (call_returning (PStr ''from call''))\<rparr>"

definition unreachable :: "string \<Rightarrow> pyval \<Rightarrow> http_outcome" where
  "unreachable path payload = HttpRaises (Exn ConnectError ''All connection attempts failed'')"

definition invoke_all :: "string \<Rightarrow> string list \<Rightarrow> (exn + pydict) \<times> invocation list" where
  "invoke_all input_text names =
     (Inr [(''agent_count'', PInt (int (length names)))],
      map (\<lambda>n. \<lparr>inv_agent = n, inv_cap = RunAsync, inv_input = PStr input_text, inv_context = []\<rparr>) names)"

definition example_api :: api where
  "example_api =
     \<lparr>agent_map = [(''evaluator'', async_only (returning (PDict [(''output'', PStr ''ok'')]))),
                   (''vp_design'', async_only (returning (PDict [(''output'', PStr ''sketch'')])))],
      dispatcher_agents =
                  [(''evaluator'', async_only (returning (PDict [(''output'', PStr ''ok'')]))),
                   (''vp_design'', async_only (returning (PDict [(''output'', PStr ''sketch'')])))],
      http_post = unreachable,
      py_repr = repr_plain,
      run_parallel = invoke_all,
      new_memory = (\<lambda>agent. None),
      memory_append = (\<lambda>agent input_text output. None),
      log_event = (\<lambda>agent input_text output fallback. None)\<rparr>"

definition output_X :: pyval where
  "output_X = PDict [(''output'', PStr ''X'')]"

definition output_42 :: pyval where
  "output_42 = PDict [(''output'', PInt 42)]"

definition pm_design :: pm_result where
  "pm_design =
     \<lparr>pm_error = None,
      pm_shared_state = Some \<lparr>ss_suggested_agents = Some [''vp_design'', ''creative_director'',
                                  ''principal_designer'', ''design_technologist''],
                              ss_pattern_type = Some ''design_focused''\<rparr>,
      pm_confidence = Some (Finite (7/10))\<rparr>"

definition fmt_fixed :: "pyfloat \<Rightarrow> string" where
  "fmt_fixed f = ''0.70''"

definition bad_gateway :: "string \<Rightarrow> pyval \<Rightarrow> http_outcome" where
  "bad_gateway path payload = HttpResponse 502 (Inr (PStr ''Bad Gateway''))"

text \<open>A manifest with an entry that has no module, a resolution in which one class
  cannot be instantiated, and a plugin registered under a manifest name.\<close>

definition resolve_example :: "string \<Rightarrow> exn + handle" where
  "resolve_example name =
     (if name = ''evaluator'' then Inr (async_only (returning (PStr ''core evaluator'')))
      else if name = ''vp_design'' then Inr (async_only (returning (PStr ''core design'')))
      else if name = ''crashing'' then Inl (Exn TypeError ''__init__() missing 1 required argument'')
      else Inl (Exn ModuleNotFoundError ''No module named agents''))"

definition manifest_example :: pydict where
  "manifest_example =
     [(''evaluator'', PDict []), (''ghost_writer'', PDict []), (''vp_design'', PDict [])]"

definition plugins_example :: plugin_env where
  "plugins_example =
     \<lparr>dir_exists = True,
      discover_plugins = Inr (1, 0),
      list_agents = [''evaluator''],
      instantiate = (\<lambda>name. Inr (call_only (call_returning (PStr ''plugin evaluator''))))\<rparr>"

definition new_loader :: AgentLoader where
  "new_loader = \<lparr>loaded_agents = [], manifest_data = None\<rparr>"

text \<open>A routing service that recommends \<open>vp_design\<close> and does not rewrite.\<close>

definition recommending_design :: "string \<Rightarrow> pyval \<Rightarrow> http_outcome" where
  "recommending_design path payload =
     (if path = ''/route''
      then HttpResponse 200
             (Inr (PDict [(''recommended_agent'', PStr ''vp_design''),
                          (''confidence'', PFloat (Finite (9/10))),
                          (''alternatives'', PList [PStr ''creative_director'']),
                          (''reasoning'', PStr ''High confidence routing to specialized agents.'')]))
      else HttpResponse 503 (Inr (PStr ''Service Unavailable'')))"

definition design_api :: api where
  "design_api = example_api\<lparr>http_post := recommending_design\<rparr>"

definition prompt_request :: "string option \<Rightarrow> PromptRequest" where
  "prompt_request preference =
     \<lparr>pr_input = ''Design a logo'', agent_preference = preference, pr_use_memory = True,
      pr_use_telemetry = True, pr_use_prompt_orchestrator = True\<rparr>"

section \<open>Properties of dispatch\<close>

lemma dispatch_unknown:
  "map_of agents name = None \<Longrightarrow>
     dispatch agents rp name input_text context =
       \<lparr>result = Inl (Exn ValueError (''Agent '' @ quoted name @ '' not found. Available: ''
                  @ rp (PList (map (PStr \<circ> fst) agents)))), invoked = [], errlog = []\<rparr>"
  by (simp add: dispatch_def)

lemma dispatch_known:
  "map_of agents name = Some agent \<Longrightarrow>
     result (dispatch agents rp name input_text context) =
       snd (invoke_agent rp agent input_text (context_or_empty context))"
  by (simp add: dispatch_def Let_def split: prod.splits)

lemma dispatch_known_invoked:
  "map_of agents name = Some agent \<Longrightarrow>
     map inv_cap (invoked (dispatch agents rp name input_text context)) =
       (case fst (invoke_agent rp agent input_text (context_or_empty context)) of
          None \<Rightarrow> [] | Some c \<Rightarrow> [c])"
  by (simp add: dispatch_def Let_def split: prod.splits option.splits)

lemma dispatch_known_errlog:
  "map_of agents name = Some agent \<Longrightarrow>
     errlog (dispatch agents rp name input_text context) =
       (case snd (invoke_agent rp agent input_text (context_or_empty context)) of
          Inl e \<Rightarrow> [''Error dispatching to '' @ name @ '': '' @ exn_str e] | Inr _ \<Rightarrow> [])"
  by (simp add: dispatch_def Let_def split: prod.splits sum.splits)

lemma run_parallel_agents_invalid:
  "name \<in> set (req_agents req) \<Longrightarrow> map_of (agent_map a) name = None \<Longrightarrow>
     run_parallel_agents a req =
       (Inl (HTTPException 404 (''Agents not found: '' @
          py_repr a (PList (map PStr
            (filter (\<lambda>agent. map_of (agent_map a) agent = None) (req_agents req)))))), [])"
  by (auto simp add: run_parallel_agents_def Let_def filter_empty_conv)

text \<open>
  C3. A name that is not a key of the dispatcher's agents makes \<open>dispatch\<close> raise its
  \<open>ValueError\<close> with no handler invoked; a request to \<open>run_parallel_agents\<close> that lists a
  name that is not a key of \<open>agent_map\<close> is answered with \<open>HTTPException\<close> 404 and the
  orchestrator is not run, so no agent of the request is invoked.
\<close>

theorem unknown_agent_fails_fast:
  "(map_of agents name = None \<longrightarrow>
      result (dispatch agents rp name input_text context) =
        Inl (Exn ValueError (''Agent '' @ quoted name @ '' not found. Available: ''
               @ rp (PList (map (PStr \<circ> fst) agents)))) \<and>
      invoked (dispatch agents rp name input_text context) = []) \<and>
   (name \<in> set (req_agents req) \<and> map_of (agent_map a) name = None \<longrightarrow>
      (\<exists>detail. fst (run_parallel_agents a req) = Inl (HTTPException 404 detail)) \<and>
      snd (run_parallel_agents a req) = [])"
  by (auto simp add: dispatch_unknown run_parallel_agents_invalid)

theorem unknown_agent_fails_fast_witness:
  "map_of (dispatcher_agents example_api) ''ghost'' = None \<and>
   invoked (dispatch (dispatcher_agents example_api) repr_plain ''ghost''
              (PStr ''Critique this flow'') None) = [] \<and>
   ''ghost'' \<in> set [''evaluator'', ''ghost''] \<and>
   map_of (agent_map example_api) ''ghost'' = None \<and>
   snd (run_parallel_agents example_api
          \<lparr>req_agents = [''evaluator'', ''ghost''], par_input = ''Critique this flow'',
           use_evaluator = True\<rparr>) = []"
  using unknown_agent_fails_fast [of "dispatcher_agents example_api" "''ghost''" repr_plain
      "PStr ''Critique this flow''" None
      "\<lparr>req_agents = [''evaluator'', ''ghost''], par_input = ''Critique this flow'',
        use_evaluator = True\<rparr>"
      example_api]
  by (simp add: example_api_def)

text \<open>
  C5. For a registered agent, \<open>dispatch\<close> takes the first capability present, in the order
  \<open>run_async\<close>, \<open>run\<close>, direct call: its result is the outcome of that capability alone
  (an exception of it is the result, with no other capability tried), and that capability
  is the only one invoked.
\<close>

theorem capability_precedence:
  assumes "map_of agents name = Some agent"
  shows "(\<forall>m. run_async agent = Some m \<longrightarrow>
            result (dispatch agents rp name input_text context) =
              map_sum id (unwrap_result rp) (m input_text (context_or_empty context)) \<and>
            map inv_cap (invoked (dispatch agents rp name input_text context)) = [RunAsync]) \<and>
         (\<forall>m. run_async agent = None \<and> run agent = Some m \<longrightarrow>
            result (dispatch agents rp name input_text context) =
              map_sum id (unwrap_result rp) (m input_text (context_or_empty context)) \<and>
            map inv_cap (invoked (dispatch agents rp name input_text context)) = [Run]) \<and>
         (\<forall>f. run_async agent = None \<and> run agent = None \<and> call agent = Some f \<longrightarrow>
            result (dispatch agents rp name input_text context) =
              map_sum id (\<lambda>v. PStr (py_str rp v)) (f input_text) \<and>
            map inv_cap (invoked (dispatch agents rp name input_text context)) = [Call])"
  using assms
  by (simp add: dispatch_known dispatch_known_invoked invoke_agent_def)

theorem capability_precedence_witness:
  "map_of [(''a'', all_three)] ''a'' = Some all_three \<and>
   result (dispatch [(''a'', all_three)] repr_plain ''a'' (PStr ''hi'') None) =
     Inl (Exn RuntimeError ''boom'') \<and>
   map inv_cap (invoked (dispatch [(''a'', all_three)] repr_plain ''a'' (PStr ''hi'') None)) = [RunAsync]"
  using capability_precedence [of "[(''a'', all_three)]" "''a''" all_three repr_plain "PStr ''hi''" None]
  by (simp add: all_three_def raising_def)

text \<open>
  C4. The claim asks that normalization yield a string, the \<open>output\<close> value of a mapping
  that has one, for every handler return value; \<open>dispatch\<close> declares \<open>-> str\<close> and
  documents a string output. The source misses it on two inputs. A directly called agent
  that returns \<open>{"output": "X"}\<close> yields the rendering of the whole mapping, not \<open>"X"\<close>:
  the direct-call branch leaves out the unwrapping that both method branches do. And an
  agent whose \<open>run_async\<close> returns \<open>{"output": 42}\<close> yields the integer 42, not a string:
  \<open>result.get\<close> hands the stored value on unconverted.
\<close>

theorem normalization_failing_inputs:
  "result (dispatch [(''a'', call_only (call_returning output_X))] repr_plain ''a''
             (PStr ''hi'') None)
     = Inr (PStr (''{'' @ quoted ''output'' @ '': '' @ quoted ''X'' @ ''}'')) \<and>
   result (dispatch [(''a'', call_only (call_returning output_X))] repr_plain ''a''
             (PStr ''hi'') None)
     \<noteq> Inr (PStr ''X'') \<and>
   result (dispatch [(''a'', async_only (returning output_X))] repr_plain ''a''
             (PStr ''hi'') None)
     = Inr (PStr ''X'') \<and>
   result (dispatch [(''a'', run_only (returning output_X))] repr_plain ''a''
             (PStr ''hi'') None)
     = Inr (PStr ''X'') \<and>
   result (dispatch [(''a'', async_only (returning output_42))] repr_plain ''a''
             (PStr ''hi'') None)
     = Inr (PInt 42)"
  by (simp add: dispatch_def invoke_agent_def call_only_def async_only_def run_only_def
      call_returning_def returning_def output_X_def output_42_def py_str_def quoted_def
      unwrap_result_def)

text \<open>
  C6, as the source has it. An agent whose \<open>run_async\<close> raises \<open>RuntimeError("boom")\<close>
  makes \<open>dispatch\<close> raise that same \<open>RuntimeError\<close>, not a wrapping error, and the one line
  logged holds the agent name and the message, with no part of the input.
\<close>

theorem reraise_counterexample:
  "result (dispatch [(''a'', async_only (raising (Exn RuntimeError ''boom'')))] repr_plain ''a''
             (PStr ''Design a mobile app for Bitcoin trading'') None)
     = Inl (Exn RuntimeError ''boom'') \<and>
   errlog (dispatch [(''a'', async_only (raising (Exn RuntimeError ''boom'')))] repr_plain ''a''
             (PStr ''Design a mobile app for Bitcoin trading'') None)
     = [''Error dispatching to a: boom'']"
  by (simp add: dispatch_def invoke_agent_def async_only_def raising_def context_or_empty_def)

text \<open>
  C6, amended. An exception raised by the capability that \<open>dispatch\<close> invokes is caught,
  logged in one line with the agent name and the exception's message, and raised again
  unchanged to the caller of \<open>dispatch\<close>.
\<close>

theorem exception_logged_and_reraised:
  assumes "map_of agents name = Some agent"
    and "(\<exists>m. (run_async agent = Some m \<or> run_async agent = None \<and> run agent = Some m) \<and>
              m input_text (context_or_empty context) = Inl e) \<or>
         (\<exists>f. run_async agent = None \<and> run agent = None \<and> call agent = Some f \<and>
              f input_text = Inl e)"
  shows "result (dispatch agents rp name input_text context) = Inl e \<and>
         errlog (dispatch agents rp name input_text context) =
           [''Error dispatching to '' @ name @ '': '' @ exn_str e]"
  using assms
  by (auto simp add: dispatch_known dispatch_known_errlog invoke_agent_def)

theorem exception_logged_and_reraised_witness:
  "map_of [(''a'', call_only (call_raising (Exn KeyError ''k'')))] ''a''
     = Some (call_only (call_raising (Exn KeyError ''k''))) \<and>
   call (call_only (call_raising (Exn KeyError ''k''))) = Some (call_raising (Exn KeyError ''k'')) \<and>
   call_raising (Exn KeyError ''k'') (PStr ''hi'') = Inl (Exn KeyError ''k'') \<and>
   result (dispatch [(''a'', call_only (call_raising (Exn KeyError ''k'')))] repr_plain ''a'' (PStr ''hi'') None)
     = Inl (Exn KeyError ''k'') \<and>
   errlog (dispatch [(''a'', call_only (call_raising (Exn KeyError ''k'')))] repr_plain ''a'' (PStr ''hi'') None)
     = [''Error dispatching to a: k'']"
  using exception_logged_and_reraised [of
      "[(''a'', call_only (call_raising (Exn KeyError ''k'')))]" "''a''"
      "call_only (call_raising (Exn KeyError ''k''))" "PStr ''hi''" None "Exn KeyError ''k''" repr_plain]
  by (simp add: call_only_def call_raising_def)

section \<open>Properties of the router\<close>

lemma py_in_sublist: "py_in w s = sublist w s"
  by (induction s) (auto simp add: sublist_Cons_right)

lemma any_word_in_iff: "any_word_in ws s = (\<exists>w\<in>set ws. sublist w s)"
  by (simp add: any_word_in_def list_ex_iff py_in_sublist)

lemma lower_design_prompt:
  "lower ''Design a mobile app for Bitcoin trading'' = ''design a mobile app for bitcoin trading''"
  by (simp add: lower_def lower_char_def)

lemma select_agent_design_prompt:
  "select_agent ''Design a mobile app for Bitcoin trading'' = ''vp_design''"
  by (simp add: select_agent_def lower_design_prompt any_word_in_def)

lemma lower_roadmap_prompt: "lower ''Write a Roadmap'' = ''write a roadmap''"
  by (simp add: lower_def lower_char_def)

text \<open>
  C8. \<open>select_agent\<close> lower-cases the prompt and tests, category by category in the order
  design, strategy, technical, content, evaluation, whether one of the category's marker
  words occurs in it as a contiguous substring; the first category that matches gives its
  one agent, and a prompt that matches none gives \<open>evaluator\<close>. The prompt
  \<open>Design a mobile app for Bitcoin trading\<close> gives \<open>vp_design\<close>.
\<close>

theorem select_agent_priority:
  "select_agent p =
     (if (\<exists>w\<in>set [''design'', ''ui'', ''ux'', ''interface'', ''visual'']. sublist w (lower p))
        then ''vp_design''
      else if (\<exists>w\<in>set [''strategy'', ''roadmap'', ''business'', ''plan'']. sublist w (lower p))
        then ''strategy_pilot''
      else if (\<exists>w\<in>set [''code'', ''technical'', ''implement'', ''development'']. sublist w (lower p))
        then ''design_technologist''
      else if (\<exists>w\<in>set [''content'', ''copy'', ''text'', ''narrative'']. sublist w (lower p))
        then ''content_designer''
      else if (\<exists>w\<in>set [''evaluate'', ''analyze'', ''review'', ''critique'']. sublist w (lower p))
        then ''evaluator''
      else ''evaluator'') \<and>
   select_agent ''Design a mobile app for Bitcoin trading'' = ''vp_design''"
  unfolding select_agent_def Let_def any_word_in_iff
    select_agent_design_prompt [unfolded select_agent_def Let_def any_word_in_iff]
  by simp

theorem select_agent_priority_witness:
  "select_agent ''Write a Roadmap'' = ''strategy_pilot''"
  using select_agent_priority [of "''Write a Roadmap''"]
  by (simp add: lower_roadmap_prompt py_in_sublist [symmetric])

text \<open>
  C1. For a prompt analysis without \<open>error\<close>, \<open>route_agent\<close> answers. When the list of
  suggested agents is not empty and the confidence is greater than or equal to the
  request's threshold, the recommended agent is the first suggested agent and the
  alternatives are the entries after it, two at most (\<open>suggested_agents[1:3]\<close>); otherwise
  the recommended agent comes from the table of pattern types, \<open>evaluator\<close> for a pattern
  type that is not in it, and the alternatives are \<open>vp_design\<close> and \<open>creative_director\<close>.
  A confidence equal to the threshold meets it.
\<close>

theorem route_agent_threshold_gate:
  assumes "pm_error res = None"
  shows "\<exists>resp. route_agent fmt2 req (Inr res) = Inr resp \<and>
     (if suggested_of res \<noteq> [] \<and> float_ge (confidence_of res) (confidence_threshold req)
      then recommended_agent resp = hd (suggested_of res) \<and>
           alternatives resp = take 2 (tl (suggested_of res))
      else recommended_agent resp =
             (if pattern_of res = ''design_focused'' then ''vp_design''
              else if pattern_of res = ''strategy_focused'' then ''strategy_pilot''
              else if pattern_of res = ''technical_focused'' then ''design_technologist''
              else if pattern_of res = ''content_focused'' then ''content_designer''
              else ''evaluator'') \<and>
           alternatives resp = [''vp_design'', ''creative_director'']) \<and>
     (\<forall>c. suggested_of res \<noteq> [] \<and> confidence_of res = Finite c \<and>
          confidence_threshold req = Finite c \<longrightarrow>
          recommended_agent resp = hd (suggested_of res))"
  using assms
  by (auto simp add: route_agent_def route_decision_def Let_def get_default_def pattern_defaults_def
      hd_conv_nth drop_Suc)

theorem route_agent_threshold_gate_witness:
  "pm_error pm_design = None \<and>
   map_sum id recommended_agent
     (route_agent fmt_fixed \<lparr>prompt = ''Design a logo'', confidence_threshold = Finite (7/10)\<rparr>
        (Inr pm_design)) = Inr ''vp_design'' \<and>
   map_sum id alternatives
     (route_agent fmt_fixed \<lparr>prompt = ''Design a logo'', confidence_threshold = Finite (7/10)\<rparr>
        (Inr pm_design)) = Inr [''creative_director'', ''principal_designer'']"
  using route_agent_threshold_gate [of pm_design fmt_fixed
      "\<lparr>prompt = ''Design a logo'', confidence_threshold = Finite (7/10)\<rparr>"]
  by (auto simp add: pm_design_def suggested_of_def shared_of_def confidence_of_def)

text \<open>
  C2. \<open>call_prompt_orchestrator\<close> and \<open>get_agent_recommendation\<close> return a value for every
  outcome of the HTTP request, so neither raises. When the rewrite request raises (a
  timeout is an exception of the client), is answered with a status other than 200, or
  its body cannot be decoded, the result is the identity rewrite of the prompt with
  confidence 0.5; in the same cases the routing request gives \<open>evaluator\<close> with
  confidence 0.5.
\<close>

theorem upstream_failure_degrades:
  "(\<exists>d. call_prompt_orchestrator post p context = Inr d) \<and>
   (\<exists>d. get_agent_recommendation post p = Inr d) \<and>
   (http_failed (post ''/rewrite'' (rewrite_payload p context)) \<longrightarrow>
      call_prompt_orchestrator post p context =
        Inr (PDict [(''original_prompt'', PStr p), (''rewritten_prompt'', PStr p),
                    (''confidence'', PFloat (Finite (1/2)))])) \<and>
   (http_failed (post ''/route'' (route_payload p)) \<longrightarrow>
      get_agent_recommendation post p =
        Inr (PDict [(''recommended_agent'', PStr ''evaluator''),
                    (''confidence'', PFloat (Finite (1/2)))]))"
  by (auto simp add: call_prompt_orchestrator_def get_agent_recommendation_def http_failed_def
      rewrite_fallback_def route_fallback_def Let_def split: http_outcome.splits sum.splits)

theorem upstream_failure_degrades_witness:
  "http_failed (bad_gateway ''/rewrite'' (rewrite_payload ''Design a logo'' None)) \<and>
   call_prompt_orchestrator bad_gateway ''Design a logo'' None =
     Inr (PDict [(''original_prompt'', PStr ''Design a logo''),
                 (''rewritten_prompt'', PStr ''Design a logo''),
                 (''confidence'', PFloat (Finite (1/2)))]) \<and>
   http_failed (unreachable ''/route'' (route_payload ''Design a logo'')) \<and>
   get_agent_recommendation unreachable ''Design a logo'' =
     Inr (PDict [(''recommended_agent'', PStr ''evaluator''),
                 (''confidence'', PFloat (Finite (1/2)))])"
  using upstream_failure_degrades [of bad_gateway "''Design a logo''" None]
    upstream_failure_degrades [of unreachable "''Design a logo''" None]
  by (simp add: http_failed_def bad_gateway_def unreachable_def)

section \<open>Properties of the registry\<close>

lemma load_loop_ok:
  assumes "\<forall>n\<in>set names. usable resolve n \<or> skippable resolve n"
    and "distinct names" and "set names \<inter> fst ` set acc = {}"
  shows "\<exists>agents lg'. load_loop resolve names acc lg = (Inr agents, lg @ lg') \<and>
           map fst agents = map fst acc @ filter (usable resolve) names \<and>
           (\<forall>n. map_of agents n =
                  (if n \<in> set names then (case resolve n of Inr inst \<Rightarrow> Some inst | Inl e \<Rightarrow> None)
                   else map_of acc n)) \<and>
           length (filter is_failure lg') = length (filter (\<lambda>n. \<not> usable resolve n) names) \<and>
           length lg' = length names"
  using assms
proof (induction names arbitrary: acc lg)
  case Nil
  then show ?case by simp
next
  case (Cons name names)
  show ?case
  proof (cases "resolve name")
    case (Inr inst)
    have d: "set names \<inter> fst ` set (AList.update name inst acc) = {}"
      using Cons.prems by (auto simp add: AList.dom_update)
    have k: "map fst (AList.update name inst acc) = map fst acc @ [name]"
      using Cons.prems by (auto simp add: AList.update_keys)
    from Cons.IH [of "AList.update name inst acc" "lg @ [LoadedAgent name]"] Cons.prems d
    obtain agents lg' where
      h: "load_loop resolve names (AList.update name inst acc) (lg @ [LoadedAgent name])
            = (Inr agents, (lg @ [LoadedAgent name]) @ lg')"
        "map fst agents = map fst (AList.update name inst acc) @ filter (usable resolve) names"
        "\<forall>n. map_of agents n =
                  (if n \<in> set names then (case resolve n of Inr inst \<Rightarrow> Some inst | Inl e \<Rightarrow> None)
                   else map_of (AList.update name inst acc) n)"
        "length (filter is_failure lg') = length (filter (\<lambda>n. \<not> usable resolve n) names)"
        "length lg' = length names"
      by auto
    have u: "usable resolve name"
      using Inr by (simp add: usable_def)
    show ?thesis
      apply (rule exI [of _ agents])
      apply (rule exI [of _ "LoadedAgent name # lg'"])
      using h Inr k u Cons.prems
      by (auto simp add: AList.update_conv')
  next
    case (Inl e)
    have sk: "is_ImportError e \<or> is_AttributeError e"
      using Cons.prems Inl by (auto simp add: usable_def skippable_def)
    from Cons.IH [of acc "lg @ [FailedAgent name e]"] Cons.prems
    obtain agents lg' where
      h: "load_loop resolve names acc (lg @ [FailedAgent name e])
            = (Inr agents, (lg @ [FailedAgent name e]) @ lg')"
        "map fst agents = map fst acc @ filter (usable resolve) names"
        "\<forall>n. map_of agents n =
                  (if n \<in> set names then (case resolve n of Inr inst \<Rightarrow> Some inst | Inl e \<Rightarrow> None)
                   else map_of acc n)"
        "length (filter is_failure lg') = length (filter (\<lambda>n. \<not> usable resolve n) names)"
        "length lg' = length names"
      by auto
    have nacc: "map_of acc name = None"
      using Cons.prems by (auto simp add: map_of_eq_None_iff)
    have u: "\<not> usable resolve name"
      using Inl by (simp add: usable_def)
    show ?thesis
      apply (rule exI [of _ agents])
      apply (rule exI [of _ "FailedAgent name e # lg'"])
      using h Inl sk nacc u Cons.prems
      by auto
  qed
qed

lemma load_loop_from_empty:
  assumes "\<forall>n\<in>set names. usable resolve n \<or> skippable resolve n" and "distinct names"
  shows "\<exists>agents lg. load_loop resolve names [] [] = (Inr agents, lg) \<and>
           map fst agents = filter (usable resolve) names \<and>
           (\<forall>n. map_of agents n =
                  (if n \<in> set names then (case resolve n of Inr inst \<Rightarrow> Some inst | Inl e \<Rightarrow> None)
                   else None)) \<and>
           length agents = length (filter (usable resolve) names) \<and>
           length (filter is_failure lg) = length (filter (\<lambda>n. \<not> usable resolve n) names)"
proof -
  from load_loop_ok [OF assms(1) assms(2), of "[]" "[]"]
  obtain agents lg' where
    h: "load_loop resolve names [] [] = (Inr agents, [] @ lg')"
       "map fst agents = map fst [] @ filter (usable resolve) names"
       "\<forall>n. map_of agents n =
                  (if n \<in> set names then (case resolve n of Inr inst \<Rightarrow> Some inst | Inl e \<Rightarrow> None)
                   else map_of [] n)"
       "length (filter is_failure lg') = length (filter (\<lambda>n. \<not> usable resolve n) names)"
    by auto
  have "length agents = length (map fst agents)" by simp
  also have "\<dots> = length (filter (usable resolve) names)" using h(2) by simp
  finally have l: "length agents = length (filter (usable resolve) names)" .
  show ?thesis
    apply (rule exI [of _ agents])
    apply (rule exI [of _ lg'])
    using h l by simp
qed

text \<open>
  C7, as the source has it. A manifest that is not valid JSON makes both loaders raise the
  decoder's error, since they catch \<open>FileNotFoundError\<close> alone; and an entry whose class
  raises \<open>TypeError\<close> when instantiated ends the module's \<open>load_agents\<close> with that error,
  the agents loaded before it lost.
\<close>

theorem load_counterexample:
  "load_agents ''agent_manifest.json''
      (ReadRaises (Exn JSONDecodeError ''Expecting value: line 1 column 1 (char 0)''))
      resolve_example
     = (Inl (Exn JSONDecodeError ''Expecting value: line 1 column 1 (char 0)''), []) \<and>
   fst (load_core_agents new_loader ''agent_manifest.json''
      (ReadRaises (Exn JSONDecodeError ''Expecting value: line 1 column 1 (char 0)''))
      resolve_example)
     = Inl (Exn JSONDecodeError ''Expecting value: line 1 column 1 (char 0)'') \<and>
   load_agents ''agent_manifest.json''
      (ReadOk (Some [(''evaluator'', PDict []), (''crashing'', PDict []), (''vp_design'', PDict [])]))
      resolve_example
     = (Inl (Exn TypeError ''__init__() missing 1 required argument''), [LoadedAgent ''evaluator''])"
  by (simp add: load_agents_def load_core_agents_def resolve_example_def)

text \<open>
  C7, amended. A missing manifest (\<open>FileNotFoundError\<close>) gives zero core agents and one
  printed warning; any other exception of reading the manifest, a malformed document
  included, is raised to the caller. For a manifest whose entries each either resolve or
  fail with \<open>ImportError\<close> or \<open>AttributeError\<close>, the load does not raise, returns exactly
  the resolvable entries, in manifest order and each bound to its instance, and prints one
  failure line for each of the others.
\<close>

theorem load_isolates_import_failures:
  "(is_FileNotFoundError e \<longrightarrow>
      load_agents path (ReadRaises e) resolve = (Inr [], [ManifestNotFound path]) \<and>
      load_core_agents self path (ReadRaises e) resolve = (Inr [], [ManifestNotFound path], self)) \<and>
   (\<not> is_FileNotFoundError e \<longrightarrow>
      fst (load_agents path (ReadRaises e) resolve) = Inl e \<and>
      fst (load_core_agents self path (ReadRaises e) resolve) = Inl e) \<and>
   (distinct (map fst entries) \<and>
    (\<forall>n\<in>set (map fst entries). usable resolve n \<or> skippable resolve n) \<longrightarrow>
      (\<exists>agents lg.
         load_agents path (ReadOk (Some entries)) resolve = (Inr agents, lg) \<and>
         fst (load_core_agents self path (ReadOk (Some entries)) resolve) = Inr agents \<and>
         fst (snd (load_core_agents self path (ReadOk (Some entries)) resolve)) = lg \<and>
         map fst agents = filter (usable resolve) (map fst entries) \<and>
         (\<forall>n. map_of agents n =
                (if n \<in> set (map fst entries)
                 then (case resolve n of Inr inst \<Rightarrow> Some inst | Inl x \<Rightarrow> None)
                 else None)) \<and>
         length agents = length (filter (usable resolve) (map fst entries)) \<and>
         length (filter is_failure lg) =
           length (filter (\<lambda>n. \<not> usable resolve n) (map fst entries))))"
proof (intro conjI impI)
  assume "distinct (map fst entries) \<and>
    (\<forall>n\<in>set (map fst entries). usable resolve n \<or> skippable resolve n)"
  then have a: "\<forall>n\<in>set (map fst entries). usable resolve n \<or> skippable resolve n"
    and b: "distinct (map fst entries)" by blast+
  from load_loop_from_empty [OF a b]
  obtain agents lg where
    h: "load_loop resolve (map fst entries) [] [] = (Inr agents, lg)"
       "map fst agents = filter (usable resolve) (map fst entries)"
       "\<forall>n. map_of agents n =
                (if n \<in> set (map fst entries)
                 then (case resolve n of Inr inst \<Rightarrow> Some inst | Inl x \<Rightarrow> None)
                 else None)"
       "length agents = length (filter (usable resolve) (map fst entries))"
       "length (filter is_failure lg) =
           length (filter (\<lambda>n. \<not> usable resolve n) (map fst entries))"
    by blast
  show "\<exists>agents lg.
         load_agents path (ReadOk (Some entries)) resolve = (Inr agents, lg) \<and>
         fst (load_core_agents self path (ReadOk (Some entries)) resolve) = Inr agents \<and>
         fst (snd (load_core_agents self path (ReadOk (Some entries)) resolve)) = lg \<and>
         map fst agents = filter (usable resolve) (map fst entries) \<and>
         (\<forall>n. map_of agents n =
                (if n \<in> set (map fst entries)
                 then (case resolve n of Inr inst \<Rightarrow> Some inst | Inl x \<Rightarrow> None)
                 else None)) \<and>
         length agents = length (filter (usable resolve) (map fst entries)) \<and>
         length (filter is_failure lg) =
           length (filter (\<lambda>n. \<not> usable resolve n) (map fst entries))"
    apply (rule exI [of _ agents])
    apply (rule exI [of _ lg])
    using h by (simp add: load_agents_def load_core_agents_def Let_def)
qed (simp_all add: load_agents_def load_core_agents_def)

lemma usable_example:
  "usable resolve_example ''evaluator''" "usable resolve_example ''vp_design''"
  "\<not> usable resolve_example ''ghost_writer''" "skippable resolve_example ''ghost_writer''"
  by (simp_all add: usable_def skippable_def resolve_example_def)

theorem load_isolates_import_failures_witness:
  "is_FileNotFoundError (Exn FileNotFoundError ''No such file or directory'') \<and>
   load_agents ''agent_manifest.json'' (ReadRaises (Exn FileNotFoundError ''No such file or directory''))
      resolve_example = (Inr [], [ManifestNotFound ''agent_manifest.json'']) \<and>
   distinct (map fst manifest_example) \<and>
   usable resolve_example ''evaluator'' \<and> skippable resolve_example ''ghost_writer'' \<and>
   usable resolve_example ''vp_design'' \<and>
   map fst (projr (fst (load_agents ''agent_manifest.json'' (ReadOk (Some manifest_example))
      resolve_example))) = [''evaluator'', ''vp_design''] \<and>
   length (filter is_failure (snd (load_agents ''agent_manifest.json'' (ReadOk (Some manifest_example))
      resolve_example))) = 1"
  using load_isolates_import_failures [of "Exn FileNotFoundError ''No such file or directory''"
      "''agent_manifest.json''" resolve_example new_loader manifest_example]
  by (auto simp add: manifest_example_def usable_example)

lemma plugin_loop_lookup:
  "map_of (fst (plugin_loop inst names acc lg)) n =
     (if n \<in> set names then (case inst n of Inr a \<Rightarrow> Some a | Inl e \<Rightarrow> map_of acc n)
      else map_of acc n)"
  by (induction names arbitrary: acc lg)
     (auto simp add: AList.update_conv' split: sum.splits)

lemma plugin_loop_distinct:
  "distinct (map fst acc) \<Longrightarrow> distinct (map fst (fst (plugin_loop inst names acc lg)))"
  by (induction names arbitrary: acc lg)
     (auto simp add: AList.distinct_update split: sum.splits)

lemma dict_update_lookup:
  "distinct (map fst other) \<Longrightarrow> map_of (dict_update d other) = map_of d ++ map_of other"
proof (induction other arbitrary: d)
  case Nil
  then show ?case by (simp add: dict_update_def)
next
  case (Cons kv other)
  obtain k v where kv: "kv = (k, v)" by (cases kv)
  have nk: "map_of other k = None"
    using Cons.prems kv by (auto simp add: map_of_eq_None_iff)
  have "map_of (dict_update d (kv # other)) = map_of (dict_update (AList.update k v d) other)"
    by (simp add: dict_update_def kv)
  also have "\<dots> = map_of (AList.update k v d) ++ map_of other"
    using Cons.IH [of "AList.update k v d"] Cons.prems by simp
  also have "\<dots> = map_of d ++ map_of (kv # other)"
    using nk by (auto simp add: kv AList.update_conv' map_add_def fun_eq_iff split: option.splits)
  finally show ?case .
qed

lemma load_plugins_binds:
  assumes "dir_exists env" and "discover_plugins env = Inr found"
    and "name \<in> set (list_agents env)" and "instantiate env name = Inr a"
  shows "\<exists>plugin_agents lg. load_plugins env = (Inr plugin_agents, lg) \<and>
           load_plugin_agents env = (Inr plugin_agents, lg) \<and>
           distinct (map fst plugin_agents) \<and> map_of plugin_agents name = Some a"
proof -
  obtain af tf where f: "found = (af, tf)" by (cases found)
  obtain pa lg where p: "plugin_loop (instantiate env) (list_agents env) [] [] = (pa, lg)"
    by (cases "plugin_loop (instantiate env) (list_agents env) [] []")
  have d: "distinct (map fst pa)"
    using plugin_loop_distinct [of "[]" "instantiate env" "list_agents env" "[]"] p by simp
  have m: "map_of pa name = Some a"
    using plugin_loop_lookup [of "instantiate env" "list_agents env" "[]" "[]" name] p assms
    by simp
  show ?thesis
    using assms f p d m by (simp add: load_plugins_def load_plugin_agents_def)
qed

text \<open>
  C9. When the plugins directory exists, discovery succeeds and the plugin registry lists
  a name whose plugin class can be instantiated, then, whatever the manifest binds that
  name to, the merged map of \<open>load_all_agents\<close> and of \<open>AgentLoader.load_agents\<close> binds the
  name to the plugin's instance, and the merge raises nothing: the load returns whenever
  the load of the core agents does.
\<close>

theorem plugin_overrides_manifest:
  assumes "dir_exists env" and "discover_plugins env = Inr found"
    and "name \<in> set (list_agents env)" and "instantiate env name = Inr a"
  shows "(\<forall>core. fst (load_agents path rd resolve) = Inr core \<longrightarrow>
            (\<exists>merged. fst (load_all_agents path rd resolve env) = Inr merged \<and>
               map_of merged name = Some a)) \<and>
         (\<forall>core. fst (load_core_agents self path rd resolve) = Inr core \<longrightarrow>
            (\<exists>merged. fst (loader_load_agents self path rd resolve env) = Inr merged \<and>
               map_of merged name = Some a \<and>
               loaded_agents (snd (snd (loader_load_agents self path rd resolve env))) = merged))"
proof -
  from load_plugins_binds [OF assms]
  obtain pa lg where
    p: "load_plugins env = (Inr pa, lg)" "load_plugin_agents env = (Inr pa, lg)"
       "distinct (map fst pa)" "map_of pa name = Some a"
    by blast
  have look: "\<And>d. map_of (dict_update d pa) name = Some a"
    using p(3) p(4) by (simp add: dict_update_lookup)
  show ?thesis
    using p(1) p(2) look
    by (auto simp add: load_all_agents_def loader_load_agents_def Let_def split: prod.splits sum.splits)
qed

theorem plugin_overrides_manifest_witness:
  "dir_exists plugins_example \<and> discover_plugins plugins_example = Inr (1, 0) \<and>
   ''evaluator'' \<in> set (list_agents plugins_example) \<and>
   ''evaluator'' \<in> set (map fst manifest_example) \<and>
   map_of (projr (fst (load_agents ''agent_manifest.json'' (ReadOk (Some manifest_example))
             resolve_example))) ''evaluator''
     = Some (async_only (returning (PStr ''core evaluator''))) \<and>
   map_of (projr (fst (load_all_agents ''agent_manifest.json'' (ReadOk (Some manifest_example))
             resolve_example plugins_example))) ''evaluator''
     = Some (call_only (call_returning (PStr ''plugin evaluator'')))"
  using plugin_overrides_manifest [of plugins_example "(1, 0)" "''evaluator''"
      "call_only (call_returning (PStr ''plugin evaluator''))"
      "''agent_manifest.json''" "ReadOk (Some manifest_example)" resolve_example new_loader]
  by (auto simp add: plugins_example_def manifest_example_def load_agents_def resolve_example_def)

section \<open>Properties of the prompt handler\<close>

lemma dispatch_invoked_agent:
  "ev \<in> set (invoked (dispatch agents rp name input_text context)) \<Longrightarrow> inv_agent ev = name"
  by (auto simp add: dispatch_def Let_def split: option.splits prod.splits)

lemma dispatch_invoked_once:
  "map_of agents name = Some agent \<Longrightarrow>
     run_async agent \<noteq> None \<or> run agent \<noteq> None \<or> call agent \<noteq> None \<Longrightarrow>
     map inv_agent (invoked (dispatch agents rp name input_text context)) = [name]"
  by (auto simp add: dispatch_def invoke_agent_def Let_def split: option.splits prod.splits)

lemma run_agent_invoked:
  "snd (run_agent a req) =
     (if map_of (agent_map a) (rr_agent req) = None \<or>
         (rr_use_memory req \<and> new_memory a (rr_agent req) \<noteq> None) then []
      else invoked (dispatch (dispatcher_agents a) (py_repr a) (rr_agent req)
             (final_input (orchestrator_result_of a req) (rr_input req)) None))"
  by (auto simp add: run_agent_def Let_def split: option.splits sum.splits)

lemma handle_prompt_invoked:
  "snd (handle_prompt a req) =
     snd (run_agent a \<lparr>rr_agent = final_agent a req (agent_recommendation_of a req),
                        rr_input = pr_input req,
                        rr_use_memory = pr_use_memory req,
                        rr_use_telemetry = pr_use_telemetry req,
                        rr_use_prompt_orchestrator = pr_use_prompt_orchestrator req\<rparr>)"
  by (simp add: handle_prompt_def Let_def split: prod.splits sum.splits)

text \<open>
  C10. Every handler invocation made by \<open>handle_prompt\<close> is on the agent that lines
  270-284 select, and when that agent is registered in \<open>agent_map\<close> and in the dispatcher
  with a capability, and its memory, if asked for, can be constructed, it is invoked
  exactly once. With an agent preference (a non-empty string; \<open>not req.agent_preference\<close>
  takes the empty string for none) the selected agent is the preference, whatever the
  recommendation. Without one it is the recommended agent when that is a key of
  \<open>agent_map\<close>, and \<open>evaluator\<close> otherwise.
\<close>

theorem handle_prompt_agent_choice:
  "(\<forall>ev\<in>set (snd (handle_prompt a req)).
      inv_agent ev = final_agent a req (agent_recommendation_of a req)) \<and>
   (\<forall>agent. map_of (agent_map a) (final_agent a req (agent_recommendation_of a req)) \<noteq> None \<and>
      map_of (dispatcher_agents a) (final_agent a req (agent_recommendation_of a req)) = Some agent \<and>
      (run_async agent \<noteq> None \<or> run agent \<noteq> None \<or> call agent \<noteq> None) \<and>
      (pr_use_memory req \<longrightarrow>
         new_memory a (final_agent a req (agent_recommendation_of a req)) = None) \<longrightarrow>
      map inv_agent (snd (handle_prompt a req)) =
        [final_agent a req (agent_recommendation_of a req)]) \<and>
   (\<forall>p. agent_preference req = Some p \<and> p \<noteq> [] \<longrightarrow> final_agent a req rec = p) \<and>
   (agent_preference req = None \<or> agent_preference req = Some [] \<longrightarrow>
      final_agent a req rec =
        (case recommended_name rec of
           Some s \<Rightarrow> (if map_of (agent_map a) s \<noteq> None then s else ''evaluator'')
         | None \<Rightarrow> ''evaluator''))"
proof (intro conjI)
  show "\<forall>ev\<in>set (snd (handle_prompt a req)).
      inv_agent ev = final_agent a req (agent_recommendation_of a req)"
    by (auto simp add: handle_prompt_invoked run_agent_invoked dest: dispatch_invoked_agent
        split: if_splits)
  show "\<forall>agent. map_of (agent_map a) (final_agent a req (agent_recommendation_of a req)) \<noteq> None \<and>
      map_of (dispatcher_agents a) (final_agent a req (agent_recommendation_of a req)) = Some agent \<and>
      (run_async agent \<noteq> None \<or> run agent \<noteq> None \<or> call agent \<noteq> None) \<and>
      (pr_use_memory req \<longrightarrow>
         new_memory a (final_agent a req (agent_recommendation_of a req)) = None) \<longrightarrow>
      map inv_agent (snd (handle_prompt a req)) =
        [final_agent a req (agent_recommendation_of a req)]"
  proof (intro allI impI)
    fix agent
    assume h: "map_of (agent_map a) (final_agent a req (agent_recommendation_of a req)) \<noteq> None \<and>
      map_of (dispatcher_agents a) (final_agent a req (agent_recommendation_of a req)) = Some agent \<and>
      (run_async agent \<noteq> None \<or> run agent \<noteq> None \<or> call agent \<noteq> None) \<and>
      (pr_use_memory req \<longrightarrow>
         new_memory a (final_agent a req (agent_recommendation_of a req)) = None)"
    then have m: "map_of (dispatcher_agents a) (final_agent a req (agent_recommendation_of a req))
        = Some agent"
      and c: "run_async agent \<noteq> None \<or> run agent \<noteq> None \<or> call agent \<noteq> None"
      by blast+
    show "map inv_agent (snd (handle_prompt a req)) =
        [final_agent a req (agent_recommendation_of a req)]"
      using h by (auto simp add: handle_prompt_invoked run_agent_invoked
          dispatch_invoked_once [OF m c])
  qed
  show "\<forall>p. agent_preference req = Some p \<and> p \<noteq> [] \<longrightarrow> final_agent a req rec = p"
    by (auto simp add: final_agent_def preferred_def Let_def split: option.splits)
  show "agent_preference req = None \<or> agent_preference req = Some [] \<longrightarrow>
      final_agent a req rec =
        (case recommended_name rec of
           Some s \<Rightarrow> (if map_of (agent_map a) s \<noteq> None then s else ''evaluator'')
         | None \<Rightarrow> ''evaluator'')"
    by (auto simp add: final_agent_def preferred_def Let_def split: option.splits)
qed

lemma rec_design:
  "agent_recommendation_of design_api (prompt_request preference) =
     Some (PDict [(''recommended_agent'', PStr ''vp_design''),
                          (''confidence'', PFloat (Finite (9/10))),
                          (''alternatives'', PList [PStr ''creative_director'']),
                          (''reasoning'', PStr ''High confidence routing to specialized agents.'')])"
  by (simp add: agent_recommendation_of_def design_api_def prompt_request_def
      get_agent_recommendation_def recommending_design_def)

theorem handle_prompt_agent_choice_witness:
  "agent_preference (prompt_request None) = None \<and>
   map inv_agent (snd (handle_prompt design_api (prompt_request None))) = [''vp_design''] \<and>
   agent_preference (prompt_request (Some ''evaluator'')) = Some ''evaluator'' \<and>
   map inv_agent (snd (handle_prompt design_api (prompt_request (Some ''evaluator''))))
     = [''evaluator'']"
  using handle_prompt_agent_choice [of design_api "prompt_request None"
          "agent_recommendation_of design_api (prompt_request None)"]
    handle_prompt_agent_choice [of design_api "prompt_request (Some ''evaluator'')"
          "agent_recommendation_of design_api (prompt_request (Some ''evaluator''))"]
  by (simp add: rec_design recommended_name_def)
     (simp add: prompt_request_def design_api_def example_api_def async_only_def)

end
